theory Spec2Isabelle
  imports Main "HOL-Library.Word"
begin

section \<open>The MinHook-based HardHook of the overlay (HardHook\_minhook.cpp)\<close>

text \<open>
  The file implements the class \<open>HardHook\<close> on top of the MinHook library. The
  embedding passes two pieces of state explicitly: the object (\<open>this\<close>) and the process
  (the static flag \<open>minhook_init_once\<close>, the state of the MinHook library, the data
  memory read by \<open>setupInterface\<close>, and the sequence of externally visible events: calls
  into MinHook and lines sent to \<open>fods\<close>).

  Pointers are 64-bit words with \<open>NULL = 0\<close> (the Win64 build, \<open>sizeof(void *) = 8\<close>);
  \<open>LONG\<close> is a 32-bit word.
\<close>

type_synonym ptr = "64 word"
type_synonym LONG = "32 word"

subsection \<open>MinHook as seen from this file\<close>

text \<open>
  Modelled from the spec: \<open>MinHook.h\<close> is not among the sources, so the status
  enumeration \<open>MH_STATUS\<close> is declared here, with the status vocabulary of the
  specification's section 6 under the names that \<open>minhook_status_string\<close> switches
  over. \<open>MH_STATUS_other\<close> stands for a value of the enumeration type that is none of
  them (the switch falls through to the final \<open>return\<close>).
\<close>

datatype MH_STATUS =
    MH_UNKNOWN
  | MH_OK
  | MH_ERROR_ALREADY_INITIALIZED
  | MH_ERROR_NOT_INITIALIZED
  | MH_ERROR_ALREADY_CREATED
  | MH_ERROR_NOT_CREATED
  | MH_ERROR_ENABLED
  | MH_ERROR_DISABLED
  | MH_ERROR_NOT_EXECUTABLE
  | MH_ERROR_UNSUPPORTED_FUNCTION
  | MH_ERROR_MEMORY_ALLOC
  | MH_ERROR_MEMORY_PROTECT
  | MH_STATUS_other

text \<open>
  The library itself is a parameter of every function below: four operations on a
  library state \<open>'b\<close>, each returning a status and the next state, with no assumption
  on either. \<open>MH_CreateHook\<close> receives the address of the member \<open>call\<close> as its third
  argument; what it does with it is its second result: \<open>Some t\<close> when it stores \<open>t\<close>
  there, \<open>None\<close> when it leaves the member as it was.
\<close>

record 'b MinHook =
  MH_Initialize :: "'b \<Rightarrow> MH_STATUS \<times> 'b"
  MH_CreateHook :: "ptr \<Rightarrow> ptr \<Rightarrow> 'b \<Rightarrow> MH_STATUS \<times> ptr option \<times> 'b"
  MH_EnableHook :: "ptr \<Rightarrow> 'b \<Rightarrow> MH_STATUS \<times> 'b"
  MH_DisableHook :: "ptr \<Rightarrow> 'b \<Rightarrow> MH_STATUS \<times> 'b"

subsection \<open>Events, the process and the object\<close>

text \<open>
  Modelled from the spec: \<open>fods\<close> is declared in \<open>ods.h\<close>, which is not among the
  sources; it is the diagnostic sink of the specification's section 6, which accepts a
  message and returns nothing. It is called with a printf-style format and its
  arguments; an event keeps both, unformatted. The trace also records each call into the
  library, in program order.
\<close>

datatype fods_arg = Arg_s string | Arg_p ptr | Arg_ld LONG

datatype event =
    Call_MH_Initialize
  | Call_MH_CreateHook ptr ptr
  | Call_MH_EnableHook ptr
  | Call_MH_DisableHook ptr
  | Fods string "fods_arg list"

record 'b process =
  minhook_init_once :: LONG
  minhook :: 'b
  memory :: "ptr \<rightharpoonup> ptr"
  trace :: "event list"

record HardHook =
  m_func :: ptr
  m_replacement :: ptr
  call :: ptr

text \<open>The process as it starts: the static initialiser of the flag, nothing done yet.\<close>

definition process_start :: "'b \<Rightarrow> (ptr \<rightharpoonup> ptr) \<Rightarrow> 'b process" where
  "process_start b m = \<lparr>minhook_init_once = 0, minhook = b, memory = m, trace = []\<rparr>"

subsection \<open>The functions of the file\<close>

fun minhook_status_string :: "MH_STATUS \<Rightarrow> string" where
  "minhook_status_string MH_UNKNOWN = ''MH_UNKNOWN''"
| "minhook_status_string MH_OK = ''MH_OK''"
| "minhook_status_string MH_ERROR_ALREADY_INITIALIZED = ''MH_ERROR_ALREADY_INITIALIZED''"
| "minhook_status_string MH_ERROR_NOT_INITIALIZED = ''MH_ERROR_NOT_INITIALIZED''"
| "minhook_status_string MH_ERROR_ALREADY_CREATED = ''MH_ERROR_ALREADY_CREATED''"
| "minhook_status_string MH_ERROR_NOT_CREATED = ''MH_ERROR_NOT_CREATED''"
| "minhook_status_string MH_ERROR_ENABLED = ''MH_ERROR_ENABLED''"
| "minhook_status_string MH_ERROR_DISABLED = ''MH_ERROR_DISABLED''"
| "minhook_status_string MH_ERROR_NOT_EXECUTABLE = ''MH_ERROR_NOT_EXECUTABLE''"
| "minhook_status_string MH_ERROR_UNSUPPORTED_FUNCTION = ''MH_ERROR_UNSUPPORTED_FUNCTION''"
| "minhook_status_string MH_ERROR_MEMORY_ALLOC = ''MH_ERROR_MEMORY_ALLOC''"
| "minhook_status_string MH_ERROR_MEMORY_PROTECT = ''MH_ERROR_MEMORY_PROTECT''"
| "minhook_status_string MH_STATUS_other = ''(unknown)''"

definition fods :: "string \<Rightarrow> fods_arg list \<Rightarrow> 'b process \<Rightarrow> 'b process" where
  "fods fmt args w = w\<lparr>trace := trace w @ [Fods fmt args]\<rparr>"

text \<open>
  Modelled from the spec: the Win32 primitive is not among the sources; it is the
  atomic compare-and-set of the specification's section 4.1. The destination receives
  \<open>exchange\<close> when it holds \<open>comperand\<close>; the value it held before is returned. The
  pair is (returned value, destination after).
\<close>

definition InterlockedCompareExchange :: "LONG \<Rightarrow> LONG \<Rightarrow> LONG \<Rightarrow> LONG \<times> LONG" where
  "InterlockedCompareExchange dest exchange comperand =
     (dest, if dest = comperand then exchange else dest)"

definition EnsureMinHookInitialized :: "'b MinHook \<Rightarrow> 'b process \<Rightarrow> 'b process" where
  "EnsureMinHookInitialized B w =
     (case InterlockedCompareExchange (minhook_init_once w) 1 0 of
        (initial, dest) \<Rightarrow>
          let w1 = w\<lparr>minhook_init_once := dest\<rparr> in
          if initial = 0
          then w1\<lparr>minhook := snd (MH_Initialize B (minhook w1)),
                  trace := trace w1 @ [Call_MH_Initialize]\<rparr>
          else w1)"

text \<open>
  \<open>setup\<close> is a command name of the prover, so the member functions carry the class
  name: \<open>HardHook::setup\<close> is \<open>HardHook_setup\<close>, and so on.
\<close>

definition HardHook_setup ::
  "'b MinHook \<Rightarrow> ptr \<Rightarrow> ptr \<Rightarrow> HardHook \<Rightarrow> 'b process \<Rightarrow> HardHook \<times> 'b process" where
  "HardHook_setup B func replacement h w =
     (case MH_CreateHook B func replacement (minhook w) of
        (status, stored, b1) \<Rightarrow>
          let h1 = (case stored of None \<Rightarrow> h | Some t \<Rightarrow> h\<lparr>call := t\<rparr>);
              w1 = w\<lparr>minhook := b1, trace := trace w @ [Call_MH_CreateHook func replacement]\<rparr>;
              w2 = (if status \<noteq> MH_OK
                    then fods ''HardHook: setup failed, MH_CreateHook returned %s''
                           [Arg_s (minhook_status_string status)] w1
                    else w1)
          in case MH_EnableHook B (m_func h1) (minhook w2) of
               (status', b2) \<Rightarrow>
                 let w3 = w2\<lparr>minhook := b2, trace := trace w2 @ [Call_MH_EnableHook (m_func h1)]\<rparr>;
                     w4 = (if status' \<noteq> MH_OK
                           then fods ''HardHook: setup failed, MH_EnableHook returned %s''
                                  [Arg_s (minhook_status_string status')] w3
                           else w3)
                 in (h1, w4))"

text \<open>
  \<open>ptr[0]\<close> and \<open>ptr[funcoffset]\<close> read pointer-sized cells; \<open>funcoffset\<close> is a signed
  \<open>LONG\<close>, scaled by the cell size 8. A read of an unmapped cell is a fault of the
  process: the result is \<open>None\<close>.
\<close>

definition HardHook_setupInterface ::
  "'b MinHook \<Rightarrow> ptr \<Rightarrow> LONG \<Rightarrow> ptr \<Rightarrow> HardHook \<Rightarrow> 'b process \<Rightarrow> (HardHook \<times> 'b process) option" where
  "HardHook_setupInterface B unkn funcoffset replacement h w =
     (let w1 = fods ''HardHook: setupInterface: Replacing %p function #%ld''
                 [Arg_p unkn, Arg_ld funcoffset] w
      in case memory w1 unkn of
           None \<Rightarrow> None
         | Some vtbl \<Rightarrow>
             (case memory w1 (vtbl + 8 * scast funcoffset) of
                None \<Rightarrow> None
              | Some f \<Rightarrow> Some (HardHook_setup B f replacement h w1)))"

definition HardHook_reset :: "HardHook \<Rightarrow> 'b process \<Rightarrow> HardHook \<times> 'b process" where
  "HardHook_reset h w = (h\<lparr>m_func := 0, m_replacement := 0, call := 0\<rparr>, w)"

definition HardHook_inject ::
  "'b MinHook \<Rightarrow> bool \<Rightarrow> HardHook \<Rightarrow> 'b process \<Rightarrow> HardHook \<times> 'b process" where
  "HardHook_inject B force h w =
     (if \<not> force then (h, w)
      else case MH_EnableHook B (m_func h) (minhook w) of
             (status, b1) \<Rightarrow>
               let w1 = w\<lparr>minhook := b1, trace := trace w @ [Call_MH_EnableHook (m_func h)]\<rparr>
               in (h, if status \<noteq> MH_OK
                      then fods ''HardHook: inject() failed: MH_EnableHook returned %s''
                             [Arg_s (minhook_status_string status)] w1
                      else w1))"

definition HardHook_restore ::
  "'b MinHook \<Rightarrow> bool \<Rightarrow> HardHook \<Rightarrow> 'b process \<Rightarrow> HardHook \<times> 'b process" where
  "HardHook_restore B force h w =
     (if \<not> force then (h, w)
      else case MH_DisableHook B (m_func h) (minhook w) of
             (status, b1) \<Rightarrow>
               let w1 = w\<lparr>minhook := b1, trace := trace w @ [Call_MH_DisableHook (m_func h)]\<rparr>
               in (h, if status \<noteq> MH_OK
                      then fods ''HardHook: restore() failed: MH_DisableHook returned %s''
                             [Arg_s (minhook_status_string status)] w1
                      else w1))"

definition HardHook_print :: "HardHook \<Rightarrow> 'b process \<Rightarrow> HardHook \<times> 'b process" where
  "HardHook_print h w =
     (h, fods ''HardHook: unused 'print' method called for MinHook-based HardHook'' [] w)"

definition HardHook_check :: "HardHook \<Rightarrow> 'b process \<Rightarrow> HardHook \<times> 'b process" where
  "HardHook_check h w =
     (h, fods ''HardHook: unused 'check' method called for MinHook-based HardHook'' [] w)"

text \<open>
  The two constructors. The first initialises the three members to \<open>NULL\<close>. The second
  has no initialiser list: \<open>call\<close> holds an indeterminate value \<open>indet\<close> until
  \<open>MH_CreateHook\<close> stores into it.
\<close>

definition HardHook_default :: "'b MinHook \<Rightarrow> 'b process \<Rightarrow> HardHook \<times> 'b process" where
  "HardHook_default B w =
     (\<lparr>m_func = 0, m_replacement = 0, call = 0\<rparr>, EnsureMinHookInitialized B w)"

definition HardHook_with ::
  "'b MinHook \<Rightarrow> ptr \<Rightarrow> ptr \<Rightarrow> ptr \<Rightarrow> 'b process \<Rightarrow> HardHook \<times> 'b process" where
  "HardHook_with B func replacement indet w =
     (let w1 = EnsureMinHookInitialized B w;
          h = \<lparr>m_func = func, m_replacement = replacement, call = indet\<rparr>
      in HardHook_setup B func replacement h w1)"

subsection \<open>Sequences of calls\<close>

text \<open>
  A caller's use of one object is a list of member calls; \<open>run\<close> performs them in
  order and stops at a fault.
\<close>

datatype member_call =
    Setup ptr ptr
  | SetupInterface ptr LONG ptr
  | Reset
  | Inject bool
  | Restore bool
  | Print
  | Check

fun invoke ::
  "'b MinHook \<Rightarrow> member_call \<Rightarrow> HardHook \<Rightarrow> 'b process \<Rightarrow> (HardHook \<times> 'b process) option" where
  "invoke B (Setup func replacement) h w = Some (HardHook_setup B func replacement h w)"
| "invoke B (SetupInterface unkn funcoffset replacement) h w =
     HardHook_setupInterface B unkn funcoffset replacement h w"
| "invoke B Reset h w = Some (HardHook_reset h w)"
| "invoke B (Inject force) h w = Some (HardHook_inject B force h w)"
| "invoke B (Restore force) h w = Some (HardHook_restore B force h w)"
| "invoke B Print h w = Some (HardHook_print h w)"
| "invoke B Check h w = Some (HardHook_check h w)"

fun run ::
  "'b MinHook \<Rightarrow> member_call list \<Rightarrow> HardHook \<Rightarrow> 'b process \<Rightarrow> (HardHook \<times> 'b process) option" where
  "run B [] h w = Some (h, w)"
| "run B (m # ms) h w =
     (case invoke B m h w of None \<Rightarrow> None | Some (h', w') \<Rightarrow> run B ms h' w')"

text \<open>Constructions, one after the other, each of either kind.\<close>

datatype construction = Default | With ptr ptr ptr

fun construct :: "'b MinHook \<Rightarrow> construction \<Rightarrow> 'b process \<Rightarrow> HardHook \<times> 'b process" where
  "construct B Default w = HardHook_default B w"
| "construct B (With func replacement indet) w = HardHook_with B func replacement indet w"

fun constructs ::
  "'b MinHook \<Rightarrow> construction list \<Rightarrow> 'b process \<Rightarrow> HardHook list \<times> 'b process" where
  "constructs B [] w = ([], w)"
| "constructs B (c # cs) w =
     (case construct B c w of
        (h, w1) \<Rightarrow> (case constructs B cs w1 of (hs, w2) \<Rightarrow> (h # hs, w2)))"

subsection \<open>Vocabulary of the properties\<close>

text \<open>What a non-success status adds to the diagnostic sink, and what success adds.\<close>

definition reported :: "string \<Rightarrow> MH_STATUS \<Rightarrow> event list" where
  "reported fmt status =
     (if status = MH_OK then [] else [Fods fmt [Arg_s (minhook_status_string status)]])"

text \<open>
  A dispatch table \<open>tbl\<close> laid out at address \<open>vt\<close>: slot \<open>i\<close> is the cell at
  \<open>vt + 8 * i\<close>.
\<close>

definition dispatch_table_at :: "(ptr \<rightharpoonup> ptr) \<Rightarrow> ptr \<Rightarrow> ptr list \<Rightarrow> bool" where
  "dispatch_table_at m vt tbl = (\<forall>i < length tbl. m (vt + 8 * of_nat i) = Some (tbl ! i))"

text \<open>
  The function and replacement that a call hands to the create-redirection step, if it
  has one.
\<close>

fun hooked_pair :: "member_call \<Rightarrow> 'b process \<Rightarrow> (ptr \<times> ptr) option" where
  "hooked_pair (Setup func replacement) w = Some (func, replacement)"
| "hooked_pair (SetupInterface unkn funcoffset replacement) w =
     (case memory w unkn of
        None \<Rightarrow> None
      | Some vtbl \<Rightarrow>
          (case memory w (vtbl + 8 * scast funcoffset) of
             None \<Rightarrow> None
           | Some f \<Rightarrow> Some (f, replacement)))"
| "hooked_pair _ w = None"

text \<open>The create-redirection step of a call returns \<open>MH_OK\<close>.\<close>

definition creates :: "'b MinHook \<Rightarrow> member_call \<Rightarrow> HardHook \<Rightarrow> 'b process \<Rightarrow> bool" where
  "creates B m h w =
     (case hooked_pair m w of
        None \<Rightarrow> False
      | Some (f, r) \<Rightarrow> fst (MH_CreateHook B f r (minhook w)) = MH_OK)"

text \<open>
  A setup completes successfully, in the words of the specification: neither of its
  two steps returns a status other than \<open>MH_OK\<close>.
\<close>

definition completes :: "'b MinHook \<Rightarrow> member_call \<Rightarrow> HardHook \<Rightarrow> 'b process \<Rightarrow> bool" where
  "completes B m h w =
     (case hooked_pair m w of
        None \<Rightarrow> False
      | Some (f, r) \<Rightarrow>
          (case MH_CreateHook B f r (minhook w) of
             (status, stored, b1) \<Rightarrow>
               status = MH_OK \<and> fst (MH_EnableHook B (m_func h) b1) = MH_OK))"

text \<open>
  \<open>created_since_reset B ms g h w\<close>: along the calls \<open>ms\<close>, started at \<open>(h, w)\<close>, the
  create-redirection step of some call returned \<open>MH_OK\<close> (or \<open>g\<close> held at the start) and
  no \<open>Reset\<close> came after it.
\<close>

fun created_since_reset ::
  "'b MinHook \<Rightarrow> member_call list \<Rightarrow> bool \<Rightarrow> HardHook \<Rightarrow> 'b process \<Rightarrow> bool" where
  "created_since_reset B [] g h w = g"
| "created_since_reset B (m # ms) g h w =
     (case invoke B m h w of
        None \<Rightarrow> False
      | Some (h', w') \<Rightarrow>
          created_since_reset B ms (if m = Reset then False else (g \<or> creates B m h w)) h' w')"

text \<open>The create-redirection step inside a construction returns \<open>MH_OK\<close>.\<close>

fun creates_at_construction :: "'b MinHook \<Rightarrow> construction \<Rightarrow> 'b process \<Rightarrow> bool" where
  "creates_at_construction B Default w = False"
| "creates_at_construction B (With func replacement indet) w =
     (fst (MH_CreateHook B func replacement (minhook (EnsureMinHookInitialized B w))) = MH_OK)"

text \<open>
  The library stores a trampoline, and a non-null one, exactly when \<open>MH_CreateHook\<close>
  returns \<open>MH_OK\<close>.
\<close>

definition stores_trampoline_iff_ok :: "'b MinHook \<Rightarrow> bool" where
  "stores_trampoline_iff_ok B =
     (\<forall>f r b. case MH_CreateHook B f r b of
                 (status, stored, b') \<Rightarrow>
                   (if status = MH_OK then \<exists>t. stored = Some t \<and> t \<noteq> 0 else stored = None))"

text \<open>
  A test double for the library: every operation answers with a fixed status and counts
  the call in the library state.
\<close>

definition double :: "MH_STATUS \<Rightarrow> ptr option \<Rightarrow> MH_STATUS \<Rightarrow> MH_STATUS \<Rightarrow> nat MinHook" where
  "double c t e d =
     \<lparr>MH_Initialize = (\<lambda>b. (MH_OK, Suc b)),
      MH_CreateHook = (\<lambda>func replacement b. (c, t, Suc b)),
      MH_EnableHook = (\<lambda>func b. (e, Suc b)),
      MH_DisableHook = (\<lambda>func b. (d, Suc b))\<rparr>"

text \<open>
  A library wrapped so that its state also counts the calls of \<open>MH_Initialize\<close>: the
  first component is the state of \<open>B\<close>, which every operation treats as \<open>B\<close> does, and
  the second is the number of times \<open>MH_Initialize\<close> was applied.
\<close>

definition counting :: "'b MinHook \<Rightarrow> ('b \<times> nat) MinHook" where
  "counting B =
     \<lparr>MH_Initialize = (\<lambda>(b, n).
        case MH_Initialize B b of (s, b') \<Rightarrow> (s, (b', Suc n))),
      MH_CreateHook = (\<lambda>func replacement (b, n).
        case MH_CreateHook B func replacement b of (s, t, b') \<Rightarrow> (s, t, (b', n))),
      MH_EnableHook = (\<lambda>func (b, n).
        case MH_EnableHook B func b of (s, b') \<Rightarrow> (s, (b', n))),
      MH_DisableHook = (\<lambda>func (b, n).
        case MH_DisableHook B func b of (s, b') \<Rightarrow> (s, (b', n)))\<rparr>"

text \<open>
  A second test double, with a memory: it keeps the functions for which a hook was
  created and those whose hook is enabled, refuses a second hook on a function, and
  refuses to enable or disable what was not created or is already in that state.
\<close>

record registry =
  initialised :: nat
  created :: "ptr list"
  enabled :: "ptr list"

definition registry_double :: "registry MinHook" where
  "registry_double =
     \<lparr>MH_Initialize = (\<lambda>b. (MH_OK, b\<lparr>initialised := Suc (initialised b)\<rparr>)),
      MH_CreateHook = (\<lambda>func replacement b.
        if func \<in> set (created b) then (MH_ERROR_ALREADY_CREATED, None, b)
        else (MH_OK, Some 0x3000, b\<lparr>created := func # created b\<rparr>)),
      MH_EnableHook = (\<lambda>func b.
        if func \<notin> set (created b) then (MH_ERROR_NOT_CREATED, b)
        else if func \<in> set (enabled b) then (MH_ERROR_ENABLED, b)
        else (MH_OK, b\<lparr>enabled := func # enabled b\<rparr>)),
      MH_DisableHook = (\<lambda>func b.
        if func \<notin> set (created b) then (MH_ERROR_NOT_CREATED, b)
        else if func \<notin> set (enabled b) then (MH_ERROR_DISABLED, b)
        else (MH_OK, b\<lparr>enabled := removeAll func (enabled b)\<rparr>))\<rparr>"

text \<open>
  A data memory for examples: an object at \<open>0x5000\<close> whose first cell points to a
  dispatch table of three slots at \<open>0x6000\<close>.
\<close>

definition example_memory :: "ptr \<rightharpoonup> ptr" where
  "example_memory =
     [0x5000 \<mapsto> 0x6000, 0x6000 \<mapsto> 0x1100, 0x6008 \<mapsto> 0x1200, 0x6010 \<mapsto> 0x1300]"

section \<open>What each function does, in closed form\<close>

lemma scast_of_nat_LONG:
  assumes "k < 2 ^ 31"
  shows "(scast (of_nat k :: LONG) :: ptr) = of_nat k"
proof -
  have "signed_take_bit (31::nat) (int k) = int k"
    using assms by (simp add: signed_take_bit_int_eq_self)
  then show ?thesis
    by (simp add: signed_of_nat)
qed

lemma HardHook_setup_eq:
  assumes "MH_CreateHook B func replacement (minhook w) = (s1, stored, b1)"
      and "MH_EnableHook B (m_func h) b1 = (s2, b2)"
  shows "HardHook_setup B func replacement h w =
     ((case stored of None \<Rightarrow> h | Some t \<Rightarrow> h\<lparr>call := t\<rparr>),
      w\<lparr>minhook := b2,
        trace := trace w @ [Call_MH_CreateHook func replacement]
                 @ reported ''HardHook: setup failed, MH_CreateHook returned %s'' s1
                 @ [Call_MH_EnableHook (m_func h)]
                 @ reported ''HardHook: setup failed, MH_EnableHook returned %s'' s2\<rparr>)"
proof -
  have f: "m_func (case stored of None \<Rightarrow> h | Some t \<Rightarrow> h\<lparr>call := t\<rparr>) = m_func h"
    by (cases stored) simp_all
  show ?thesis
    using assms by (simp add: HardHook_setup_def Let_def fods_def reported_def f)
qed

lemma HardHook_inject_eq:
  assumes "MH_EnableHook B (m_func h) (minhook w) = (s, b1)"
  shows "HardHook_inject B True h w =
     (h, w\<lparr>minhook := b1,
           trace := trace w @ [Call_MH_EnableHook (m_func h)]
                    @ reported ''HardHook: inject() failed: MH_EnableHook returned %s'' s\<rparr>)"
  using assms by (simp add: HardHook_inject_def Let_def fods_def reported_def)

lemma HardHook_restore_eq:
  assumes "MH_DisableHook B (m_func h) (minhook w) = (s, b1)"
  shows "HardHook_restore B True h w =
     (h, w\<lparr>minhook := b1,
           trace := trace w @ [Call_MH_DisableHook (m_func h)]
                    @ reported ''HardHook: restore() failed: MH_DisableHook returned %s'' s\<rparr>)"
  using assms by (simp add: HardHook_restore_def Let_def fods_def reported_def)

lemma EnsureMinHookInitialized_first:
  assumes "minhook_init_once w = 0"
  shows "EnsureMinHookInitialized B w =
           w\<lparr>minhook_init_once := 1, minhook := snd (MH_Initialize B (minhook w)),
             trace := trace w @ [Call_MH_Initialize]\<rparr>"
  using assms by (simp add: EnsureMinHookInitialized_def InterlockedCompareExchange_def Let_def)

lemma EnsureMinHookInitialized_later:
  assumes "minhook_init_once w \<noteq> 0"
  shows "EnsureMinHookInitialized B w = w"
  using assms by (simp add: EnsureMinHookInitialized_def InterlockedCompareExchange_def Let_def)

lemma HardHook_setup_proj:
  "HardHook_setup B func replacement h w =
     ((case fst (snd (MH_CreateHook B func replacement (minhook w))) of
         None \<Rightarrow> h | Some t \<Rightarrow> h\<lparr>call := t\<rparr>),
      w\<lparr>minhook := snd (MH_EnableHook B (m_func h)
                         (snd (snd (MH_CreateHook B func replacement (minhook w))))),
        trace := trace w @ [Call_MH_CreateHook func replacement]
                 @ reported ''HardHook: setup failed, MH_CreateHook returned %s''
                     (fst (MH_CreateHook B func replacement (minhook w)))
                 @ [Call_MH_EnableHook (m_func h)]
                 @ reported ''HardHook: setup failed, MH_EnableHook returned %s''
                     (fst (MH_EnableHook B (m_func h)
                        (snd (snd (MH_CreateHook B func replacement (minhook w))))))\<rparr>)"
  by (rule HardHook_setup_eq) (simp_all add: prod_eq_iff)

lemma HardHook_inject_proj:
  "HardHook_inject B True h w =
     (h, w\<lparr>minhook := snd (MH_EnableHook B (m_func h) (minhook w)),
           trace := trace w @ [Call_MH_EnableHook (m_func h)]
                    @ reported ''HardHook: inject() failed: MH_EnableHook returned %s''
                        (fst (MH_EnableHook B (m_func h) (minhook w)))\<rparr>)"
  by (rule HardHook_inject_eq) (simp add: prod_eq_iff)

lemma HardHook_restore_proj:
  "HardHook_restore B True h w =
     (h, w\<lparr>minhook := snd (MH_DisableHook B (m_func h) (minhook w)),
           trace := trace w @ [Call_MH_DisableHook (m_func h)]
                    @ reported ''HardHook: restore() failed: MH_DisableHook returned %s''
                        (fst (MH_DisableHook B (m_func h) (minhook w)))\<rparr>)"
  by (rule HardHook_restore_eq) (simp add: prod_eq_iff)

section \<open>Frame facts\<close>

lemma reported_no_call [simp]:
  "Call_MH_Initialize \<notin> set (reported fmt s)"
  "Call_MH_EnableHook p \<notin> set (reported fmt s)"
  "Call_MH_CreateHook p q \<notin> set (reported fmt s)"
  by (simp_all add: reported_def)

lemma count_reported [simp]: "count_list (reported fmt s) Call_MH_Initialize = 0"
  by (simp add: reported_def)

lemma setup_fields [simp]:
  "m_func (fst (HardHook_setup B f r h w)) = m_func h"
  "m_replacement (fst (HardHook_setup B f r h w)) = m_replacement h"
  by (simp_all add: HardHook_setup_proj split: option.split)

lemma setup_frame [simp]:
  "minhook_init_once (snd (HardHook_setup B f r h w)) = minhook_init_once w"
  "memory (snd (HardHook_setup B f r h w)) = memory w"
  "count_list (trace (snd (HardHook_setup B f r h w))) Call_MH_Initialize =
     count_list (trace w) Call_MH_Initialize"
  by (simp_all add: HardHook_setup_proj)

section \<open>Initialisation of the library\<close>

lemma construct_flag:
  "minhook_init_once (snd (construct B c w)) \<noteq> 0"
proof (cases "minhook_init_once w = 0")
  case True
  then show ?thesis
    by (cases c) (simp_all add: HardHook_default_def HardHook_with_def Let_def
        EnsureMinHookInitialized_first)
next
  case False
  then show ?thesis
    by (cases c) (simp_all add: HardHook_default_def HardHook_with_def Let_def
        EnsureMinHookInitialized_later)
qed

lemma construct_count:
  "count_list (trace (snd (construct B c w))) Call_MH_Initialize =
     count_list (trace w) Call_MH_Initialize + (if minhook_init_once w = 0 then 1 else 0)"
proof (cases "minhook_init_once w = 0")
  case True
  then show ?thesis
    by (cases c) (simp_all add: HardHook_default_def HardHook_with_def Let_def
        EnsureMinHookInitialized_first)
next
  case False
  then show ?thesis
    by (cases c) (simp_all add: HardHook_default_def HardHook_with_def Let_def
        EnsureMinHookInitialized_later)
qed

lemma constructs_snd_Cons:
  "snd (constructs B (c # cs) w) = snd (constructs B cs (snd (construct B c w)))"
  by (simp split: prod.split)

lemma constructs_count_later:
  "minhook_init_once w \<noteq> 0 \<Longrightarrow>
   count_list (trace (snd (constructs B cs w))) Call_MH_Initialize =
     count_list (trace w) Call_MH_Initialize"
proof (induction cs arbitrary: w)
  case Nil
  then show ?case by simp
next
  case (Cons c cs)
  have "count_list (trace (snd (constructs B cs (snd (construct B c w))))) Call_MH_Initialize
        = count_list (trace (snd (construct B c w))) Call_MH_Initialize"
    by (rule Cons.IH) (rule construct_flag)
  with Cons.prems show ?case
    by (simp only: constructs_snd_Cons construct_count) simp
qed

lemma construct_first_event:
  "minhook_init_once w = 0 \<Longrightarrow> trace w = [] \<Longrightarrow>
   hd (trace (snd (construct B c w))) = Call_MH_Initialize"
  by (cases c) (simp_all add: HardHook_default_def HardHook_with_def Let_def
        EnsureMinHookInitialized_first HardHook_setup_proj)

lemma counting_ops [simp]:
  "snd (snd (MH_Initialize (counting B) bn)) = Suc (snd bn)"
  "snd (snd (snd (MH_CreateHook (counting B) f r bn))) = snd bn"
  "snd (snd (MH_EnableHook (counting B) f bn)) = snd bn"
  "snd (snd (MH_DisableHook (counting B) f bn)) = snd bn"
  by (simp_all add: counting_def split: prod.splits)

lemma counting_setup [simp]:
  "snd (minhook (snd (HardHook_setup (counting B) f r h w))) = snd (minhook w)"
  by (simp add: HardHook_setup_proj)

lemma counting_construct:
  "snd (minhook (snd (construct (counting B) c w))) =
     snd (minhook w) + (if minhook_init_once w = 0 then 1 else 0)"
proof (cases "minhook_init_once w = 0")
  case True
  then show ?thesis
    by (cases c) (simp_all add: HardHook_default_def HardHook_with_def Let_def
        EnsureMinHookInitialized_first)
next
  case False
  then show ?thesis
    by (cases c) (simp_all add: HardHook_default_def HardHook_with_def Let_def
        EnsureMinHookInitialized_later)
qed

lemma counting_constructs_later:
  "minhook_init_once w \<noteq> 0 \<Longrightarrow>
   snd (minhook (snd (constructs (counting B) cs w))) = snd (minhook w)"
proof (induction cs arbitrary: w)
  case Nil
  then show ?case by simp
next
  case (Cons c cs)
  have "snd (minhook (snd (constructs (counting B) cs (snd (construct (counting B) c w)))))
        = snd (minhook (snd (construct (counting B) c w)))"
    by (rule Cons.IH) (rule construct_flag)
  with Cons.prems show ?case
    by (simp only: constructs_snd_Cons counting_construct) simp
qed

lemma construct_library_state:
  "minhook (snd (construct B Default (process_start b m))) = snd (MH_Initialize B b)"
  "minhook (snd (construct B (With func replacement indet) (process_start b m))) =
     snd (MH_EnableHook B func
            (snd (snd (MH_CreateHook B func replacement (snd (MH_Initialize B b))))))"
  by (simp_all add: HardHook_default_def HardHook_with_def Let_def
      EnsureMinHookInitialized_first process_start_def HardHook_setup_proj)

lemma construct_later_library_state:
  "minhook (snd (construct B Default (snd (construct B c w)))) = minhook (snd (construct B c w))"
  by (simp add: HardHook_default_def EnsureMinHookInitialized_later construct_flag)

text \<open>
  Claim C2. Whatever constructions are performed one after the other in a process that
  starts with the flag at 0, and whatever the library answers, \<open>MH_Initialize\<close> is
  applied exactly once. In the trace: its call is the first event of the first
  construction, and after the first construction and after all of them the trace holds
  one call of it. In the library: after a first default construction the library state
  is the one \<open>MH_Initialize\<close> leaves of the initial state, after a first two-argument
  construction it is that state taken through the create and enable steps, and a later
  default construction leaves the library state as it is. With the library wrapped to
  count in its own state the applications of \<open>MH_Initialize\<close>, the count is 1 after the
  first construction and after all of them.
\<close>

theorem MH_Initialize_exactly_once:
  "hd (trace (snd (construct B c (process_start b m)))) = Call_MH_Initialize \<and>
   count_list (trace (snd (construct B c (process_start b m)))) Call_MH_Initialize = 1 \<and>
   count_list (trace (snd (constructs B (c # cs) (process_start b m)))) Call_MH_Initialize = 1 \<and>
   minhook (snd (construct B Default (process_start b m))) = snd (MH_Initialize B b) \<and>
   minhook (snd (construct B (With func replacement indet) (process_start b m))) =
     snd (MH_EnableHook B func
            (snd (snd (MH_CreateHook B func replacement (snd (MH_Initialize B b)))))) \<and>
   minhook (snd (construct B Default (snd (construct B c (process_start b m))))) =
     minhook (snd (construct B c (process_start b m))) \<and>
   snd (minhook (snd (construct (counting B) c (process_start (b, 0) m)))) = 1 \<and>
   snd (minhook (snd (constructs (counting B) (c # cs) (process_start (b, 0) m)))) = 1"
proof -
  let ?w = "process_start b m"
  have flag: "minhook_init_once ?w = 0" and tr: "trace ?w = []"
    by (simp_all add: process_start_def)
  have one: "count_list (trace (snd (construct B c ?w))) Call_MH_Initialize = 1"
    by (simp add: construct_count flag tr)
  have "count_list (trace (snd (constructs B (c # cs) ?w))) Call_MH_Initialize
        = count_list (trace (snd (construct B c ?w))) Call_MH_Initialize"
    unfolding constructs_snd_Cons by (rule constructs_count_later) (rule construct_flag)
  with one have all: "count_list (trace (snd (constructs B (c # cs) ?w))) Call_MH_Initialize = 1"
    by simp
  let ?v = "process_start (b, 0::nat) m"
  have flag': "minhook_init_once ?v = 0" and st: "snd (minhook ?v) = 0"
    by (simp_all add: process_start_def)
  have one': "snd (minhook (snd (construct (counting B) c ?v))) = 1"
    by (simp add: counting_construct flag' st)
  have "snd (minhook (snd (constructs (counting B) (c # cs) ?v)))
        = snd (minhook (snd (construct (counting B) c ?v)))"
    unfolding constructs_snd_Cons by (rule counting_constructs_later) (rule construct_flag)
  with one' have all': "snd (minhook (snd (constructs (counting B) (c # cs) ?v))) = 1"
    by simp
  note first = construct_first_event [OF flag tr]
  show ?thesis
    by (intro conjI)
       (rule first one all construct_library_state construct_later_library_state one' all')+
qed

section \<open>Reset, and the unforced calls\<close>

text \<open>
  Claim C6. In any state, \<open>reset\<close> leaves the object with its three members null and
  returns the process as it received it: no call into the library, no diagnostic line,
  the library state (and with it any installed patch) as before.
\<close>

theorem reset_clears_members_only:
  "HardHook_reset h w = (\<lparr>m_func = 0, m_replacement = 0, call = 0\<rparr>, w)"
  by (simp add: HardHook_reset_def)

text \<open>
  Claim C7. With \<open>force\<close> false, \<open>inject\<close> and \<open>restore\<close> return the object and the
  process unchanged, and so does any sequence made of such calls.
\<close>

theorem unforced_inject_restore_no_op:
  assumes "\<forall>m \<in> set ms. m = Inject False \<or> m = Restore False"
  shows "HardHook_inject B False h w = (h, w) \<and>
         HardHook_restore B False h w = (h, w) \<and>
         run B ms h w = Some (h, w)"
proof -
  have "run B ms h w = Some (h, w)"
    using assms
  proof (induction ms)
    case Nil
    then show ?case by simp
  next
    case (Cons m ms)
    then have "m = Inject False \<or> m = Restore False" and "run B ms h w = Some (h, w)"
      by simp_all
    then show ?case
      by (auto simp: HardHook_inject_def HardHook_restore_def)
  qed
  then show ?thesis
    by (simp add: HardHook_inject_def HardHook_restore_def)
qed

theorem unforced_inject_restore_no_op_witness:
  "run (double MH_OK (Some 0x3000) MH_OK MH_OK)
       [Inject False, Restore False, Restore False, Inject False]
       \<lparr>m_func = 0x1000, m_replacement = 0x2000, call = 0x3000\<rparr>
       (process_start 5 Map.empty)
   = Some (\<lparr>m_func = 0x1000, m_replacement = 0x2000, call = 0x3000\<rparr>,
           process_start 5 Map.empty)"
  using unforced_inject_restore_no_op
    [of "[Inject False, Restore False, Restore False, Inject False]"
        "double MH_OK (Some 0x3000) MH_OK MH_OK"
        "\<lparr>m_func = 0x1000, m_replacement = 0x2000, call = 0x3000\<rparr>"
        "process_start 5 Map.empty"]
  by simp

section \<open>The forced calls\<close>

text \<open>
  Claim C8. With \<open>force\<close> true, \<open>inject\<close> calls \<open>MH_EnableHook\<close> and \<open>restore\<close> calls
  \<open>MH_DisableHook\<close>, each once and on the stored \<open>m_func\<close>; a status other than
  \<open>MH_OK\<close> adds one diagnostic line naming it, \<open>MH_OK\<close> adds none; the object is
  returned unchanged.
\<close>

theorem forced_inject_restore_on_m_func:
  "HardHook_inject B True h w =
     (h, w\<lparr>minhook := snd (MH_EnableHook B (m_func h) (minhook w)),
           trace := trace w @ [Call_MH_EnableHook (m_func h)]
                    @ reported ''HardHook: inject() failed: MH_EnableHook returned %s''
                        (fst (MH_EnableHook B (m_func h) (minhook w)))\<rparr>) \<and>
   HardHook_restore B True h w =
     (h, w\<lparr>minhook := snd (MH_DisableHook B (m_func h) (minhook w)),
           trace := trace w @ [Call_MH_DisableHook (m_func h)]
                    @ reported ''HardHook: restore() failed: MH_DisableHook returned %s''
                        (fst (MH_DisableHook B (m_func h) (minhook w)))\<rparr>)"
  by (simp only: HardHook_inject_proj HardHook_restore_proj)

theorem forced_inject_restore_on_m_func_witness:
  "HardHook_inject (double MH_OK None MH_ERROR_NOT_CREATED MH_OK) True
     \<lparr>m_func = 0x1000, m_replacement = 0x2000, call = 0x3000\<rparr> (process_start 0 Map.empty) =
     (\<lparr>m_func = 0x1000, m_replacement = 0x2000, call = 0x3000\<rparr>,
      \<lparr>minhook_init_once = 0, minhook = 1, memory = Map.empty,
       trace = [Call_MH_EnableHook 0x1000,
                Fods ''HardHook: inject() failed: MH_EnableHook returned %s''
                  [Arg_s ''MH_ERROR_NOT_CREATED'']]\<rparr>) \<and>
   HardHook_restore (double MH_OK None MH_ERROR_NOT_CREATED MH_OK) True
     \<lparr>m_func = 0x1000, m_replacement = 0x2000, call = 0x3000\<rparr> (process_start 0 Map.empty) =
     (\<lparr>m_func = 0x1000, m_replacement = 0x2000, call = 0x3000\<rparr>,
      \<lparr>minhook_init_once = 0, minhook = 1, memory = Map.empty,
       trace = [Call_MH_DisableHook 0x1000]\<rparr>)"
  using forced_inject_restore_on_m_func
    [of "double MH_OK None MH_ERROR_NOT_CREATED MH_OK"
        "\<lparr>m_func = 0x1000, m_replacement = 0x2000, call = 0x3000\<rparr>"
        "process_start 0 Map.empty"]
  by (simp add: double_def process_start_def reported_def)

section \<open>Setup\<close>

lemma fods_frame [simp]:
  "memory (fods fmt args w) = memory w"
  "minhook (fods fmt args w) = minhook w"
  "minhook_init_once (fods fmt args w) = minhook_init_once w"
  "trace (fods fmt args w) = trace w @ [Fods fmt args]"
  by (simp_all add: fods_def)

lemma HardHook_setupInterface_Some:
  assumes "HardHook_setupInterface B unkn funcoffset replacement h w = Some (h', w')"
  obtains f where
    "hooked_pair (SetupInterface unkn funcoffset replacement) w = Some (f, replacement)"
    "HardHook_setup B f replacement h
       (fods ''HardHook: setupInterface: Replacing %p function #%ld''
          [Arg_p unkn, Arg_ld funcoffset] w) = (h', w')"
  using assms
  by (auto simp: HardHook_setupInterface_def Let_def split: option.splits)

lemma inject_restore_object [simp]:
  "fst (HardHook_inject B force h w) = h"
  "fst (HardHook_restore B force h w) = h"
  by (cases force, simp add: HardHook_inject_proj, simp add: HardHook_inject_def)
     (cases force, simp add: HardHook_restore_proj, simp add: HardHook_restore_def)

lemma minhook_status_string_inj:
  "(minhook_status_string s = minhook_status_string s') = (s = s')"
  by (cases s; cases s'; simp)

lemma setup_statuses_only_in_trace:
  assumes "\<forall>f r b. snd (MH_CreateHook B' f r b) = snd (MH_CreateHook B f r b)"
      and "\<forall>p b. snd (MH_EnableHook B' p b) = snd (MH_EnableHook B p b)"
  shows "fst (HardHook_setup B' func replacement h w) = fst (HardHook_setup B func replacement h w)"
    and "(snd (HardHook_setup B' func replacement h w))\<lparr>trace := t\<rparr> =
         (snd (HardHook_setup B func replacement h w))\<lparr>trace := t\<rparr>"
  using assms by (simp_all add: HardHook_setup_proj)

lemma inject_statuses_only_in_trace:
  assumes "\<forall>p b. snd (MH_EnableHook B' p b) = snd (MH_EnableHook B p b)"
  shows "fst (HardHook_inject B' True h w) = fst (HardHook_inject B True h w)"
    and "(snd (HardHook_inject B' True h w))\<lparr>trace := t\<rparr> =
         (snd (HardHook_inject B True h w))\<lparr>trace := t\<rparr>"
  using assms by (simp_all add: HardHook_inject_proj)

lemma restore_statuses_only_in_trace:
  assumes "\<forall>p b. snd (MH_DisableHook B' p b) = snd (MH_DisableHook B p b)"
  shows "fst (HardHook_restore B' True h w) = fst (HardHook_restore B True h w)"
    and "(snd (HardHook_restore B' True h w))\<lparr>trace := t\<rparr> =
         (snd (HardHook_restore B True h w))\<lparr>trace := t\<rparr>"
  using assms by (simp_all add: HardHook_restore_proj)

text \<open>
  Claim C5. Whatever statuses the library returns, \<open>setup\<close>, \<open>inject(true)\<close> and
  \<open>restore(true)\<close> return an object and a process, and nothing else: the functions are
  total and their result has no status component. The result is given in full. The
  object is the one received, but for \<open>call\<close> when the library stored a trampoline; the
  library state is the one the library left; flag and memory are as before. A status
  shows only in the trace: \<open>MH_OK\<close> adds no line, any other status adds exactly one
  line whose argument is \<open>minhook_status_string\<close> of it; that description is the name of
  the enumerator, \<open>(unknown)\<close> for a value that has none, and differs from one status
  to the other. Two libraries that return different statuses but store and leave the same
  give the same object and, the trace apart, the same process.
\<close>

theorem statuses_only_reach_the_diagnostic_sink:
  "HardHook_setup B func replacement h w =
     ((case fst (snd (MH_CreateHook B func replacement (minhook w))) of
         None \<Rightarrow> h | Some t \<Rightarrow> h\<lparr>call := t\<rparr>),
      w\<lparr>minhook := snd (MH_EnableHook B (m_func h)
                         (snd (snd (MH_CreateHook B func replacement (minhook w))))),
        trace := trace w @ [Call_MH_CreateHook func replacement]
                 @ reported ''HardHook: setup failed, MH_CreateHook returned %s''
                     (fst (MH_CreateHook B func replacement (minhook w)))
                 @ [Call_MH_EnableHook (m_func h)]
                 @ reported ''HardHook: setup failed, MH_EnableHook returned %s''
                     (fst (MH_EnableHook B (m_func h)
                        (snd (snd (MH_CreateHook B func replacement (minhook w))))))\<rparr>) \<and>
   HardHook_inject B True h w =
     (h, w\<lparr>minhook := snd (MH_EnableHook B (m_func h) (minhook w)),
           trace := trace w @ [Call_MH_EnableHook (m_func h)]
                    @ reported ''HardHook: inject() failed: MH_EnableHook returned %s''
                        (fst (MH_EnableHook B (m_func h) (minhook w)))\<rparr>) \<and>
   HardHook_restore B True h w =
     (h, w\<lparr>minhook := snd (MH_DisableHook B (m_func h) (minhook w)),
           trace := trace w @ [Call_MH_DisableHook (m_func h)]
                    @ reported ''HardHook: restore() failed: MH_DisableHook returned %s''
                        (fst (MH_DisableHook B (m_func h) (minhook w)))\<rparr>) \<and>
   reported fmt s =
     (if s = MH_OK then [] else [Fods fmt [Arg_s (minhook_status_string s)]]) \<and>
   map minhook_status_string
     [MH_UNKNOWN, MH_OK, MH_ERROR_ALREADY_INITIALIZED, MH_ERROR_NOT_INITIALIZED,
      MH_ERROR_ALREADY_CREATED, MH_ERROR_NOT_CREATED, MH_ERROR_ENABLED, MH_ERROR_DISABLED,
      MH_ERROR_NOT_EXECUTABLE, MH_ERROR_UNSUPPORTED_FUNCTION, MH_ERROR_MEMORY_ALLOC,
      MH_ERROR_MEMORY_PROTECT, MH_STATUS_other] =
     [''MH_UNKNOWN'', ''MH_OK'', ''MH_ERROR_ALREADY_INITIALIZED'', ''MH_ERROR_NOT_INITIALIZED'',
      ''MH_ERROR_ALREADY_CREATED'', ''MH_ERROR_NOT_CREATED'', ''MH_ERROR_ENABLED'',
      ''MH_ERROR_DISABLED'', ''MH_ERROR_NOT_EXECUTABLE'', ''MH_ERROR_UNSUPPORTED_FUNCTION'',
      ''MH_ERROR_MEMORY_ALLOC'', ''MH_ERROR_MEMORY_PROTECT'', ''(unknown)''] \<and>
   (minhook_status_string s = minhook_status_string s') = (s = s') \<and>
   ((\<forall>f r b. snd (MH_CreateHook B' f r b) = snd (MH_CreateHook B f r b)) \<and>
    (\<forall>p b. snd (MH_EnableHook B' p b) = snd (MH_EnableHook B p b)) \<and>
    (\<forall>p b. snd (MH_DisableHook B' p b) = snd (MH_DisableHook B p b)) \<longrightarrow>
      fst (HardHook_setup B' func replacement h w) = fst (HardHook_setup B func replacement h w) \<and>
      (snd (HardHook_setup B' func replacement h w))\<lparr>trace := t\<rparr> =
        (snd (HardHook_setup B func replacement h w))\<lparr>trace := t\<rparr> \<and>
      fst (HardHook_inject B' True h w) = fst (HardHook_inject B True h w) \<and>
      (snd (HardHook_inject B' True h w))\<lparr>trace := t\<rparr> =
        (snd (HardHook_inject B True h w))\<lparr>trace := t\<rparr> \<and>
      fst (HardHook_restore B' True h w) = fst (HardHook_restore B True h w) \<and>
      (snd (HardHook_restore B' True h w))\<lparr>trace := t\<rparr> =
        (snd (HardHook_restore B True h w))\<lparr>trace := t\<rparr>)"
proof -
  have rep: "reported fmt s =
     (if s = MH_OK then [] else [Fods fmt [Arg_s (minhook_status_string s)]])"
    by (simp add: reported_def)
  have tbl: "map minhook_status_string
     [MH_UNKNOWN, MH_OK, MH_ERROR_ALREADY_INITIALIZED, MH_ERROR_NOT_INITIALIZED,
      MH_ERROR_ALREADY_CREATED, MH_ERROR_NOT_CREATED, MH_ERROR_ENABLED, MH_ERROR_DISABLED,
      MH_ERROR_NOT_EXECUTABLE, MH_ERROR_UNSUPPORTED_FUNCTION, MH_ERROR_MEMORY_ALLOC,
      MH_ERROR_MEMORY_PROTECT, MH_STATUS_other] =
     [''MH_UNKNOWN'', ''MH_OK'', ''MH_ERROR_ALREADY_INITIALIZED'', ''MH_ERROR_NOT_INITIALIZED'',
      ''MH_ERROR_ALREADY_CREATED'', ''MH_ERROR_NOT_CREATED'', ''MH_ERROR_ENABLED'',
      ''MH_ERROR_DISABLED'', ''MH_ERROR_NOT_EXECUTABLE'', ''MH_ERROR_UNSUPPORTED_FUNCTION'',
      ''MH_ERROR_MEMORY_ALLOC'', ''MH_ERROR_MEMORY_PROTECT'', ''(unknown)'']"
    by simp
  have ni: "(\<forall>f r b. snd (MH_CreateHook B' f r b) = snd (MH_CreateHook B f r b)) \<and>
    (\<forall>p b. snd (MH_EnableHook B' p b) = snd (MH_EnableHook B p b)) \<and>
    (\<forall>p b. snd (MH_DisableHook B' p b) = snd (MH_DisableHook B p b)) \<longrightarrow>
      fst (HardHook_setup B' func replacement h w) = fst (HardHook_setup B func replacement h w) \<and>
      (snd (HardHook_setup B' func replacement h w))\<lparr>trace := t\<rparr> =
        (snd (HardHook_setup B func replacement h w))\<lparr>trace := t\<rparr> \<and>
      fst (HardHook_inject B' True h w) = fst (HardHook_inject B True h w) \<and>
      (snd (HardHook_inject B' True h w))\<lparr>trace := t\<rparr> =
        (snd (HardHook_inject B True h w))\<lparr>trace := t\<rparr> \<and>
      fst (HardHook_restore B' True h w) = fst (HardHook_restore B True h w) \<and>
      (snd (HardHook_restore B' True h w))\<lparr>trace := t\<rparr> =
        (snd (HardHook_restore B True h w))\<lparr>trace := t\<rparr>"
  proof (intro impI, elim conjE)
    assume c: "\<forall>f r b. snd (MH_CreateHook B' f r b) = snd (MH_CreateHook B f r b)"
       and e: "\<forall>p b. snd (MH_EnableHook B' p b) = snd (MH_EnableHook B p b)"
       and d: "\<forall>p b. snd (MH_DisableHook B' p b) = snd (MH_DisableHook B p b)"
    show "fst (HardHook_setup B' func replacement h w) = fst (HardHook_setup B func replacement h w) \<and>
      (snd (HardHook_setup B' func replacement h w))\<lparr>trace := t\<rparr> =
        (snd (HardHook_setup B func replacement h w))\<lparr>trace := t\<rparr> \<and>
      fst (HardHook_inject B' True h w) = fst (HardHook_inject B True h w) \<and>
      (snd (HardHook_inject B' True h w))\<lparr>trace := t\<rparr> =
        (snd (HardHook_inject B True h w))\<lparr>trace := t\<rparr> \<and>
      fst (HardHook_restore B' True h w) = fst (HardHook_restore B True h w) \<and>
      (snd (HardHook_restore B' True h w))\<lparr>trace := t\<rparr> =
        (snd (HardHook_restore B True h w))\<lparr>trace := t\<rparr>"
      by (intro conjI)
         (rule setup_statuses_only_in_trace [OF c e] inject_statuses_only_in_trace [OF e]
               restore_statuses_only_in_trace [OF d])+
  qed
  show ?thesis
    by (intro conjI)
       (rule HardHook_setup_proj HardHook_inject_proj HardHook_restore_proj rep tbl
             minhook_status_string_inj ni)+
qed

theorem statuses_only_reach_the_diagnostic_sink_witness:
  "HardHook_setup (double MH_ERROR_ALREADY_CREATED None MH_ERROR_ENABLED MH_OK)
     0x1000 0x2000 \<lparr>m_func = 0x1000, m_replacement = 0x2000, call = 0x3000\<rparr>
     (process_start 0 Map.empty) =
     (\<lparr>m_func = 0x1000, m_replacement = 0x2000, call = 0x3000\<rparr>,
      \<lparr>minhook_init_once = 0, minhook = 2, memory = Map.empty,
       trace =
         [Call_MH_CreateHook 0x1000 0x2000,
          Fods ''HardHook: setup failed, MH_CreateHook returned %s''
            [Arg_s ''MH_ERROR_ALREADY_CREATED''],
          Call_MH_EnableHook 0x1000,
          Fods ''HardHook: setup failed, MH_EnableHook returned %s''
            [Arg_s ''MH_ERROR_ENABLED'']]\<rparr>) \<and>
   fst (HardHook_setup (double MH_ERROR_ALREADY_CREATED None MH_ERROR_ENABLED MH_ERROR_DISABLED)
          0x1000 0x2000 \<lparr>m_func = 0x1000, m_replacement = 0x2000, call = 0x3000\<rparr>
          (process_start 0 Map.empty)) =
   fst (HardHook_setup (double MH_OK None MH_OK MH_OK)
          0x1000 0x2000 \<lparr>m_func = 0x1000, m_replacement = 0x2000, call = 0x3000\<rparr>
          (process_start 0 Map.empty))"
proof -
  let ?B = "double MH_OK None MH_OK MH_OK"
  let ?B' = "double MH_ERROR_ALREADY_CREATED None MH_ERROR_ENABLED MH_ERROR_DISABLED"
  let ?B1 = "double MH_ERROR_ALREADY_CREATED None MH_ERROR_ENABLED MH_OK"
  let ?h = "\<lparr>m_func = 0x1000, m_replacement = 0x2000, call = 0x3000\<rparr>"
  let ?w = "process_start 0 Map.empty :: nat process"
  have same: "(\<forall>f r b. snd (MH_CreateHook ?B' f r b) = snd (MH_CreateHook ?B f r b)) \<and>
    (\<forall>p b. snd (MH_EnableHook ?B' p b) = snd (MH_EnableHook ?B p b)) \<and>
    (\<forall>p b. snd (MH_DisableHook ?B' p b) = snd (MH_DisableHook ?B p b))"
    by (simp add: double_def)
  note inst = statuses_only_reach_the_diagnostic_sink
                [of ?B "0x1000" "0x2000" ?h ?w _ _ _ ?B']
  from inst [THEN conjunct2, THEN conjunct2, THEN conjunct2, THEN conjunct2,
             THEN conjunct2, THEN conjunct2, THEN mp, OF same, THEN conjunct1]
  have two: "fst (HardHook_setup ?B' 0x1000 0x2000 ?h ?w) =
             fst (HardHook_setup ?B 0x1000 0x2000 ?h ?w)" .
  have one: "HardHook_setup ?B1 0x1000 0x2000 ?h ?w =
     (?h,
      \<lparr>minhook_init_once = 0, minhook = 2, memory = Map.empty,
       trace =
         [Call_MH_CreateHook 0x1000 0x2000,
          Fods ''HardHook: setup failed, MH_CreateHook returned %s''
            [Arg_s ''MH_ERROR_ALREADY_CREATED''],
          Call_MH_EnableHook 0x1000,
          Fods ''HardHook: setup failed, MH_EnableHook returned %s''
            [Arg_s ''MH_ERROR_ENABLED'']]\<rparr>)"
    using statuses_only_reach_the_diagnostic_sink
            [of ?B1 "0x1000" "0x2000" ?h ?w, THEN conjunct1]
    by (simp add: double_def process_start_def reported_def)
  from one two show ?thesis by (rule conjI)
qed

text \<open>
  Claim C9. \<open>setup\<close> returns the object with \<open>m_func\<close> and \<open>m_replacement\<close> as it
  received them, and so does every member call but \<open>reset\<close>; the two-argument
  constructor sets them to its arguments. The library ends in the state that
  \<open>MH_EnableHook\<close> on the stored \<open>m_func\<close> leaves after \<open>MH_CreateHook\<close> on the
  arguments. When the stored \<open>m_func\<close> differs from the argument \<open>func\<close>, the events of
  the call hold an enable of the stored value and none of \<open>func\<close>; for a hook out of the
  default constructor the stored value is null.
\<close>

theorem setup_never_writes_m_func:
  "m_func (fst (HardHook_setup B func replacement h w)) = m_func h \<and>
   m_replacement (fst (HardHook_setup B func replacement h w)) = m_replacement h \<and>
   (m \<noteq> Reset \<and> invoke B m h w = Some (h', w') \<longrightarrow>
      m_func h' = m_func h \<and> m_replacement h' = m_replacement h) \<and>
   m_func (fst (HardHook_with B func replacement indet w)) = func \<and>
   m_replacement (fst (HardHook_with B func replacement indet w)) = replacement \<and>
   m_func (fst (HardHook_default B w)) = 0 \<and>
   minhook (snd (HardHook_setup B func replacement h w)) =
     snd (MH_EnableHook B (m_func h)
            (snd (snd (MH_CreateHook B func replacement (minhook w))))) \<and>
   (m_func h \<noteq> func \<longrightarrow>
      Call_MH_EnableHook (m_func h)
        \<in> set (drop (length (trace w)) (trace (snd (HardHook_setup B func replacement h w)))) \<and>
      Call_MH_EnableHook func
        \<notin> set (drop (length (trace w)) (trace (snd (HardHook_setup B func replacement h w)))))"
proof -
  have inv: "m_func h' = m_func h \<and> m_replacement h' = m_replacement h"
    if "m \<noteq> Reset" "invoke B m h w = Some (h', w')"
  proof (cases m)
    case (Setup f r)
    with that have "h' = fst (HardHook_setup B f r h w)" by auto
    then show ?thesis by simp
  next
    case (SetupInterface u k r)
    with that have "HardHook_setupInterface B u k r h w = Some (h', w')" by simp
    then obtain f w1 where "HardHook_setup B f r h w1 = (h', w')"
      by (rule HardHook_setupInterface_Some)
    then have "h' = fst (HardHook_setup B f r h w1)" by simp
    then show ?thesis by simp
  next
    case Reset
    with that show ?thesis by simp
  next
    case (Inject force)
    with that have "h' = fst (HardHook_inject B force h w)" by simp
    then show ?thesis by simp
  next
    case (Restore force)
    with that have "h' = fst (HardHook_restore B force h w)" by simp
    then show ?thesis by simp
  next
    case Print
    with that show ?thesis by (auto simp: HardHook_print_def)
  next
    case Check
    with that show ?thesis by (auto simp: HardHook_check_def)
  qed
  have ctor: "m_func (fst (HardHook_with B func replacement indet w)) = func"
     "m_replacement (fst (HardHook_with B func replacement indet w)) = replacement"
     "m_func (fst (HardHook_default B w)) = 0"
    by (simp_all add: HardHook_with_def HardHook_default_def Let_def)
  have ev: "drop (length (trace w)) (trace (snd (HardHook_setup B func replacement h w))) =
     [Call_MH_CreateHook func replacement]
     @ reported ''HardHook: setup failed, MH_CreateHook returned %s''
         (fst (MH_CreateHook B func replacement (minhook w)))
     @ [Call_MH_EnableHook (m_func h)]
     @ reported ''HardHook: setup failed, MH_EnableHook returned %s''
         (fst (MH_EnableHook B (m_func h)
            (snd (snd (MH_CreateHook B func replacement (minhook w))))))"
    by (simp add: HardHook_setup_proj)
  have st: "minhook (snd (HardHook_setup B func replacement h w)) =
     snd (MH_EnableHook B (m_func h)
            (snd (snd (MH_CreateHook B func replacement (minhook w)))))"
    by (simp add: HardHook_setup_proj)
  show ?thesis
    using inv ctor st by (simp add: ev)
qed

theorem setup_never_writes_m_func_witness:
  "drop 1 (trace (snd (HardHook_setup (double MH_OK (Some 0x3000) MH_OK MH_OK) 0x1000 0x2000
      (fst (HardHook_default (double MH_OK (Some 0x3000) MH_OK MH_OK) (process_start 0 Map.empty)))
      (snd (HardHook_default (double MH_OK (Some 0x3000) MH_OK MH_OK) (process_start 0 Map.empty))))))
   = [Call_MH_CreateHook 0x1000 0x2000, Call_MH_EnableHook 0] \<and>
   Call_MH_EnableHook 0x1000 \<notin> set (drop 1 (trace (snd (HardHook_setup (double MH_OK (Some 0x3000) MH_OK MH_OK) 0x1000 0x2000
      (fst (HardHook_default (double MH_OK (Some 0x3000) MH_OK MH_OK) (process_start 0 Map.empty)))
      (snd (HardHook_default (double MH_OK (Some 0x3000) MH_OK MH_OK) (process_start 0 Map.empty)))))))"
  using setup_never_writes_m_func
    [of "double MH_OK (Some 0x3000) MH_OK MH_OK" "0x1000" "0x2000"
      "fst (HardHook_default (double MH_OK (Some 0x3000) MH_OK MH_OK) (process_start 0 Map.empty))"
      "snd (HardHook_default (double MH_OK (Some 0x3000) MH_OK MH_OK) (process_start 0 Map.empty))"
      "Inject True"]
  by (simp add: HardHook_default_def EnsureMinHookInitialized_first process_start_def
      HardHook_setup_proj double_def reported_def)



section \<open>Setup through a dispatch table\<close>

lemma HardHook_setup_memory:
  "HardHook_setup B f r h (w\<lparr>memory := m'\<rparr>) =
     (fst (HardHook_setup B f r h w), (snd (HardHook_setup B f r h w))\<lparr>memory := m'\<rparr>)"
  by (simp add: HardHook_setup_proj)

lemma fods_memory:
  "fods fmt args (w\<lparr>memory := m'\<rparr>) = (fods fmt args w)\<lparr>memory := m'\<rparr>"
  by (simp add: fods_def)

lemma memory_update_id: "w\<lparr>memory := memory w\<rparr> = w"
  by simp

text \<open>
  What \<open>setupInterface\<close> does when the first cell of the object holds the address of a
  dispatch table and \<open>k\<close> is an index of that table: it does not fault; its first event
  is the diagnostic line with the object address and the slot index; it then is \<open>setup\<close>
  on the content of slot \<open>k\<close> and the given replacement, so the one create call is on
  that slot's function, while the enable call is on the stored \<open>m_func\<close>. The outcome is
  the same in any memory that agrees on the object's first cell and on slot \<open>k\<close>: no
  other slot is read.
\<close>

lemma setupInterface_reads_and_creates_the_slot:
  assumes "memory w unkn = Some vt"
      and "dispatch_table_at (memory w) vt tbl"
      and "k < length tbl"
      and "k < 2 ^ 31"
  shows "HardHook_setupInterface B unkn (of_nat k) replacement h w =
           Some (HardHook_setup B (tbl ! k) replacement h
                   (fods ''HardHook: setupInterface: Replacing %p function #%ld''
                      [Arg_p unkn, Arg_ld (of_nat k)] w)) \<and>
         map_option (\<lambda>(h', w'). trace w')
             (HardHook_setupInterface B unkn (of_nat k) replacement h w) =
           Some (trace w @
                 [Fods ''HardHook: setupInterface: Replacing %p function #%ld''
                    [Arg_p unkn, Arg_ld (of_nat k)],
                  Call_MH_CreateHook (tbl ! k) replacement] @
                 reported ''HardHook: setup failed, MH_CreateHook returned %s''
                   (fst (MH_CreateHook B (tbl ! k) replacement (minhook w))) @
                 [Call_MH_EnableHook (m_func h)] @
                 reported ''HardHook: setup failed, MH_EnableHook returned %s''
                   (fst (MH_EnableHook B (m_func h)
                      (snd (snd (MH_CreateHook B (tbl ! k) replacement (minhook w))))))) \<and>
         (\<forall>m'. m' unkn = Some vt \<and> m' (vt + 8 * of_nat k) = Some (tbl ! k) \<longrightarrow>
            map_option (\<lambda>(h', w'). (h', w'\<lparr>memory := memory w\<rparr>))
              (HardHook_setupInterface B unkn (of_nat k) replacement h (w\<lparr>memory := m'\<rparr>)) =
            HardHook_setupInterface B unkn (of_nat k) replacement h w)"
proof -
  let ?w1 = "fods ''HardHook: setupInterface: Replacing %p function #%ld''
               [Arg_p unkn, Arg_ld (of_nat k)] w"
  have slot: "memory w (vt + 8 * of_nat k) = Some (tbl ! k)"
    using assms(2,3) by (simp add: dispatch_table_at_def)
  have cast: "(scast (of_nat k :: LONG) :: ptr) = of_nat k"
    using assms(4) by (rule scast_of_nat_LONG)
  have eq: "HardHook_setupInterface B unkn (of_nat k) replacement h w =
              Some (HardHook_setup B (tbl ! k) replacement h ?w1)"
    using assms(1) slot by (simp add: HardHook_setupInterface_def Let_def cast)
  have tr: "map_option (\<lambda>(h', w'). trace w')
             (HardHook_setupInterface B unkn (of_nat k) replacement h w) =
           Some (trace w @
                 [Fods ''HardHook: setupInterface: Replacing %p function #%ld''
                    [Arg_p unkn, Arg_ld (of_nat k)],
                  Call_MH_CreateHook (tbl ! k) replacement] @
                 reported ''HardHook: setup failed, MH_CreateHook returned %s''
                   (fst (MH_CreateHook B (tbl ! k) replacement (minhook w))) @
                 [Call_MH_EnableHook (m_func h)] @
                 reported ''HardHook: setup failed, MH_EnableHook returned %s''
                   (fst (MH_EnableHook B (m_func h)
                      (snd (snd (MH_CreateHook B (tbl ! k) replacement (minhook w)))))))"
    unfolding eq by (simp add: HardHook_setup_proj)
  have ind: "map_option (\<lambda>(h', w'). (h', w'\<lparr>memory := memory w\<rparr>))
              (HardHook_setupInterface B unkn (of_nat k) replacement h (w\<lparr>memory := m'\<rparr>)) =
            HardHook_setupInterface B unkn (of_nat k) replacement h w"
    if "m' unkn = Some vt" "m' (vt + 8 * of_nat k) = Some (tbl ! k)" for m'
  proof -
    have "HardHook_setupInterface B unkn (of_nat k) replacement h (w\<lparr>memory := m'\<rparr>) =
            Some (HardHook_setup B (tbl ! k) replacement h (?w1\<lparr>memory := m'\<rparr>))"
      using that by (simp add: HardHook_setupInterface_def Let_def cast fods_memory)
    moreover have "memory (snd (HardHook_setup B (tbl ! k) replacement h ?w1)) = memory w"
      by simp
    ultimately show ?thesis
      unfolding eq by (simp add: HardHook_setup_memory prod_eq_iff)
  qed
  from eq tr ind show ?thesis by blast
qed

lemma registry_eval:
  "MH_Initialize registry_double b = (MH_OK, b\<lparr>initialised := Suc (initialised b)\<rparr>)"
  "MH_CreateHook registry_double func replacement b =
     (if func \<in> set (created b) then (MH_ERROR_ALREADY_CREATED, None, b)
      else (MH_OK, Some 0x3000, b\<lparr>created := func # created b\<rparr>))"
  "MH_EnableHook registry_double func b =
     (if func \<notin> set (created b) then (MH_ERROR_NOT_CREATED, b)
      else if func \<in> set (enabled b) then (MH_ERROR_ENABLED, b)
      else (MH_OK, b\<lparr>enabled := func # enabled b\<rparr>))"
  "MH_DisableHook registry_double func b =
     (if func \<notin> set (created b) then (MH_ERROR_NOT_CREATED, b)
      else if func \<notin> set (enabled b) then (MH_ERROR_DISABLED, b)
      else (MH_OK, b\<lparr>enabled := removeAll func (enabled b)\<rparr>))"
  by (simp_all add: registry_double_def)

text \<open>
  Claim C4, on the code. \<open>setupInterface\<close> reads slot \<open>k\<close> only and creates the
  redirection on its content, but the enable step of \<open>setup\<close> goes to the stored
  \<open>m_func\<close>, whatever the slot. A hook built on the function of slot 0 (\<open>0x1100\<close>),
  disabled, and then pointed at slot 2 (\<open>0x1300\<close>) through \<open>setupInterface\<close>: slot 0 is
  enabled again, slot 2 is created and never enabled, and no diagnostic line says so. On
  a hook out of the default constructor the enable goes to null and slot 2 stays
  disabled.
\<close>

theorem setupInterface_enables_m_func_not_the_slot:
  "run registry_double [Restore True, SetupInterface 0x5000 2 0x2100]
     (fst (construct registry_double (With 0x1100 0x2000 0)
             (process_start \<lparr>initialised = 0, created = [], enabled = []\<rparr> example_memory)))
     (snd (construct registry_double (With 0x1100 0x2000 0)
             (process_start \<lparr>initialised = 0, created = [], enabled = []\<rparr> example_memory))) =
   Some (\<lparr>m_func = 0x1100, m_replacement = 0x2000, call = 0x3000\<rparr>,
         \<lparr>minhook_init_once = 1,
          minhook = \<lparr>initialised = 1, created = [0x1300, 0x1100], enabled = [0x1100]\<rparr>,
          memory = example_memory,
          trace =
            [Call_MH_Initialize,
             Call_MH_CreateHook 0x1100 0x2000,
             Call_MH_EnableHook 0x1100,
             Call_MH_DisableHook 0x1100,
             Fods ''HardHook: setupInterface: Replacing %p function #%ld''
               [Arg_p 0x5000, Arg_ld 2],
             Call_MH_CreateHook 0x1300 0x2100,
             Call_MH_EnableHook 0x1100]\<rparr>) \<and>
   run registry_double [SetupInterface 0x5000 2 0x2100]
     (fst (construct registry_double Default
             (process_start \<lparr>initialised = 0, created = [], enabled = []\<rparr> example_memory)))
     (snd (construct registry_double Default
             (process_start \<lparr>initialised = 0, created = [], enabled = []\<rparr> example_memory))) =
   Some (\<lparr>m_func = 0, m_replacement = 0, call = 0x3000\<rparr>,
         \<lparr>minhook_init_once = 1,
          minhook = \<lparr>initialised = 1, created = [0x1300], enabled = []\<rparr>,
          memory = example_memory,
          trace =
            [Call_MH_Initialize,
             Fods ''HardHook: setupInterface: Replacing %p function #%ld''
               [Arg_p 0x5000, Arg_ld 2],
             Call_MH_CreateHook 0x1300 0x2100,
             Call_MH_EnableHook 0,
             Fods ''HardHook: setup failed, MH_EnableHook returned %s''
               [Arg_s ''MH_ERROR_NOT_CREATED'']]\<rparr>)"
  by (simp add: HardHook_default_def HardHook_with_def Let_def EnsureMinHookInitialized_first
      process_start_def HardHook_setupInterface_def example_memory_def
      HardHook_setup_proj HardHook_restore_proj registry_eval reported_def)

text \<open>
  Claim C1, on the code. A hook out of the default constructor has \<open>m_func\<close> null;
  \<open>setup\<close> on it, called directly or through \<open>setupInterface\<close>, creates the
  redirection on its argument and then calls \<open>MH_EnableHook\<close> on null, not on the
  argument.
\<close>

theorem setup_on_default_hook_enables_null:
  "trace (snd (HardHook_setup (double MH_OK (Some 0x3000) MH_OK MH_OK) 0x1300 0x2000
      (fst (HardHook_default (double MH_OK (Some 0x3000) MH_OK MH_OK)
              (process_start 0 example_memory)))
      (snd (HardHook_default (double MH_OK (Some 0x3000) MH_OK MH_OK)
              (process_start 0 example_memory))))) =
     [Call_MH_Initialize, Call_MH_CreateHook 0x1300 0x2000, Call_MH_EnableHook 0] \<and>
   map_option (\<lambda>(h', w'). trace w')
     (HardHook_setupInterface (double MH_OK (Some 0x3000) MH_OK MH_OK) 0x5000 2 0x2000
        (fst (HardHook_default (double MH_OK (Some 0x3000) MH_OK MH_OK)
                (process_start 0 example_memory)))
        (snd (HardHook_default (double MH_OK (Some 0x3000) MH_OK MH_OK)
                (process_start 0 example_memory)))) =
     Some [Call_MH_Initialize,
           Fods ''HardHook: setupInterface: Replacing %p function #%ld''
             [Arg_p 0x5000, Arg_ld 2],
           Call_MH_CreateHook 0x1300 0x2000,
           Call_MH_EnableHook 0]"
  by (simp add: HardHook_default_def EnsureMinHookInitialized_first process_start_def
      HardHook_setupInterface_def Let_def example_memory_def
      HardHook_setup_proj double_def reported_def)

section \<open>When the trampoline is non-null\<close>

lemma setup_call_nonnull:
  assumes "stores_trampoline_iff_ok B"
  shows "call (fst (HardHook_setup B f r h w)) \<noteq> 0 \<longleftrightarrow>
           call h \<noteq> 0 \<or> fst (MH_CreateHook B f r (minhook w)) = MH_OK"
proof -
  obtain s stored b1 where c: "MH_CreateHook B f r (minhook w) = (s, stored, b1)"
    by (cases "MH_CreateHook B f r (minhook w)") auto
  have "case MH_CreateHook B f r (minhook w) of
      (status, stored, b') \<Rightarrow>
        (if status = MH_OK then \<exists>t. stored = Some t \<and> t \<noteq> 0 else stored = None)"
    by (rule assms [unfolded stores_trampoline_iff_ok_def, THEN spec, THEN spec, THEN spec])
  with c have "if s = MH_OK then \<exists>t. stored = Some t \<and> t \<noteq> 0 else stored = None"
    by simp
  then show ?thesis
    by (auto simp: HardHook_setup_proj c split: if_splits)
qed

lemma invoke_call_nonnull:
  assumes "stores_trampoline_iff_ok B" and "invoke B m h w = Some (h', w')"
  shows "call h' \<noteq> 0 \<longleftrightarrow> (if m = Reset then False else (call h \<noteq> 0 \<or> creates B m h w))"
proof (cases m)
  case (Setup f r)
  with assms(2) have "h' = fst (HardHook_setup B f r h w)" by auto
  with Setup setup_call_nonnull [OF assms(1)] show ?thesis
    by (simp add: creates_def)
next
  case (SetupInterface u k r)
  with assms(2) have "HardHook_setupInterface B u k r h w = Some (h', w')" by simp
  then obtain f where
    f: "hooked_pair (SetupInterface u k r) w = Some (f, r)"
    and s: "HardHook_setup B f r h
       (fods ''HardHook: setupInterface: Replacing %p function #%ld'' [Arg_p u, Arg_ld k] w)
       = (h', w')"
    by (rule HardHook_setupInterface_Some)
  from s have "h' = fst (HardHook_setup B f r h
       (fods ''HardHook: setupInterface: Replacing %p function #%ld'' [Arg_p u, Arg_ld k] w))"
    by simp
  with SetupInterface f setup_call_nonnull [OF assms(1)] show ?thesis
    by (simp add: creates_def)
next
  case Reset
  with assms(2) show ?thesis by (auto simp: HardHook_reset_def)
next
  case (Inject force)
  with assms(2) have "h' = fst (HardHook_inject B force h w)" by simp
  with Inject show ?thesis by (simp add: creates_def)
next
  case (Restore force)
  with assms(2) have "h' = fst (HardHook_restore B force h w)" by simp
  with Restore show ?thesis by (simp add: creates_def)
next
  case Print
  with assms(2) show ?thesis by (auto simp: HardHook_print_def creates_def)
next
  case Check
  with assms(2) show ?thesis by (auto simp: HardHook_check_def creates_def)
qed

lemma run_call_nonnull_gen:
  assumes "stores_trampoline_iff_ok B"
      and "Reset \<in> set ms \<or> (call h \<noteq> 0 \<longleftrightarrow> g)"
      and "run B ms h w = Some (h', w')"
  shows "call h' \<noteq> 0 \<longleftrightarrow> created_since_reset B ms g h w"
  using assms(2,3)
proof (induction ms arbitrary: g h w)
  case Nil
  then show ?case by simp
next
  case (Cons m ms)
  from Cons.prems(2) obtain h1 w1 where
    step: "invoke B m h w = Some (h1, w1)" and rest: "run B ms h1 w1 = Some (h', w')"
    by (auto split: option.splits)
  let ?g = "if m = Reset then False else (g \<or> creates B m h w)"
  note inv = invoke_call_nonnull [OF assms(1) step]
  have "Reset \<in> set ms \<or> (call h1 \<noteq> 0 \<longleftrightarrow> ?g)"
  proof (cases "m = Reset")
    case True
    with inv show ?thesis by simp
  next
    case False
    with Cons.prems(1) have "Reset \<in> set ms \<or> (call h \<noteq> 0 \<longleftrightarrow> g)" by auto
    with inv False show ?thesis by auto
  qed
  then have "call h' \<noteq> 0 \<longleftrightarrow> created_since_reset B ms ?g h1 w1"
    using rest by (rule Cons.IH)
  with step show ?case by simp
qed

lemma run_created_nonnull:
  assumes "stores_trampoline_iff_ok B"
      and "g \<longrightarrow> call h \<noteq> 0"
      and "run B ms h w = Some (h', w')"
      and "created_since_reset B ms g h w"
  shows "call h' \<noteq> 0"
  using assms(2,3,4)
proof (induction ms arbitrary: g h w)
  case Nil
  then show ?case by simp
next
  case (Cons m ms)
  from Cons.prems(2) obtain h1 w1 where
    step: "invoke B m h w = Some (h1, w1)" and rest: "run B ms h1 w1 = Some (h', w')"
    by (auto split: option.splits)
  let ?g = "if m = Reset then False else (g \<or> creates B m h w)"
  note inv = invoke_call_nonnull [OF assms(1) step]
  from inv Cons.prems(1) have a: "?g \<longrightarrow> call h1 \<noteq> 0" by auto
  from Cons.prems(3) step have c: "created_since_reset B ms ?g h1 w1" by simp
  from a rest c show ?case
    by (rule Cons.IH)
qed

lemma construct_created_nonnull:
  assumes "stores_trampoline_iff_ok B"
  shows "creates_at_construction B c w \<longrightarrow> call (fst (construct B c w)) \<noteq> 0"
proof (cases c)
  case Default
  then show ?thesis by simp
next
  case (With f r i)
  with setup_call_nonnull [OF assms] show ?thesis
    by (simp add: HardHook_with_def Let_def)
qed

lemma construct_call_iff:
  assumes "stores_trampoline_iff_ok B"
      and "c = Default \<or> creates_at_construction B c w"
  shows "call (fst (construct B c w)) \<noteq> 0 \<longleftrightarrow> creates_at_construction B c w"
proof (cases c)
  case Default
  then show ?thesis by (simp add: HardHook_default_def)
next
  case (With f r i)
  with assms(2) have "fst (MH_CreateHook B f r (minhook (EnsureMinHookInitialized B w))) = MH_OK"
    by simp
  with With setup_call_nonnull [OF assms(1)] show ?thesis
    by (simp add: HardHook_with_def Let_def)
qed

text \<open>
  The second way in which \<open>call\<close> can be non-null with no successful setup: the
  two-argument constructor does not initialise \<open>call\<close>, so when its create step fails
  the member keeps the indeterminate value it had.
\<close>

lemma with_failed_create_keeps_indeterminate_call:
  assumes "stores_trampoline_iff_ok B"
      and "\<not> creates_at_construction B (With func replacement indet) w"
  shows "call (fst (construct B (With func replacement indet) w)) = indet"
proof -
  let ?w = "EnsureMinHookInitialized B w"
  have "case MH_CreateHook B func replacement (minhook ?w) of
      (status, stored, b') \<Rightarrow>
        (if status = MH_OK then \<exists>t. stored = Some t \<and> t \<noteq> 0 else stored = None)"
    by (rule assms(1) [unfolded stores_trampoline_iff_ok_def, THEN spec, THEN spec, THEN spec])
  with assms(2) have "fst (snd (MH_CreateHook B func replacement (minhook ?w))) = None"
    by (auto split: prod.splits if_splits)
  then show ?thesis
    by (simp add: HardHook_with_def Let_def HardHook_setup_proj)
qed

lemma registry_stores_trampoline_iff_ok: "stores_trampoline_iff_ok registry_double"
  by (simp add: stores_trampoline_iff_ok_def registry_eval)

lemma uninitialised_call_after_failed_create:
  "call (fst (HardHook_with registry_double 0x1000 0x2000 0xDEADBEEF
                (process_start \<lparr>initialised = 0, created = [0x1000], enabled = [0x1000]\<rparr>
                   Map.empty))) = 0xDEADBEEF"
  by (simp add: HardHook_with_def Let_def EnsureMinHookInitialized_first process_start_def
      HardHook_setup_proj registry_eval)

text \<open>
  Claim C3, as amended. The library is taken to store a trampoline, a non-null one,
  exactly when \<open>MH_CreateHook\<close> returns \<open>MH_OK\<close>. A hook is built by either
  constructor and then used through any sequence of member calls that does not fault.
  If the create step of some setup (the constructor's included) returned \<open>MH_OK\<close> and
  no \<open>reset\<close> came after it, \<open>call\<close> is non-null. Conversely, when the hook came out
  of the default constructor, or the create step of its two-argument constructor
  returned \<open>MH_OK\<close>, or \<open>reset\<close> has been called at least once, a non-null \<open>call\<close>
  means that such a create step happened: there, \<open>call\<close> is non-null exactly when the
  create step of some setup returned \<open>MH_OK\<close> and no \<open>reset\<close> came after it. The status
  of the enable step plays no part.
\<close>

theorem trampoline_nonnull_iff_created_since_reset:
  assumes "stores_trampoline_iff_ok B"
      and "run B ms (fst (construct B c w)) (snd (construct B c w)) = Some (h', w')"
  shows "(created_since_reset B ms (creates_at_construction B c w)
            (fst (construct B c w)) (snd (construct B c w)) \<longrightarrow> call h' \<noteq> 0) \<and>
         (c = Default \<or> creates_at_construction B c w \<or> Reset \<in> set ms \<longrightarrow>
            (call h' \<noteq> 0 \<longleftrightarrow>
             created_since_reset B ms (creates_at_construction B c w)
               (fst (construct B c w)) (snd (construct B c w))))"
proof (intro conjI impI)
  assume "created_since_reset B ms (creates_at_construction B c w)
            (fst (construct B c w)) (snd (construct B c w))"
  with assms(1) construct_created_nonnull [OF assms(1)] assms(2)
  show "call h' \<noteq> 0"
    by (rule run_created_nonnull)
next
  assume "c = Default \<or> creates_at_construction B c w \<or> Reset \<in> set ms"
  then have "Reset \<in> set ms \<or>
      (call (fst (construct B c w)) \<noteq> 0 \<longleftrightarrow> creates_at_construction B c w)"
    using construct_call_iff [OF assms(1)] by blast
  with assms(1) show "call h' \<noteq> 0 \<longleftrightarrow>
      created_since_reset B ms (creates_at_construction B c w)
        (fst (construct B c w)) (snd (construct B c w))"
    using assms(2) by (rule run_call_nonnull_gen)
qed

theorem trampoline_nonnull_iff_created_since_reset_witness:
  "map_option (\<lambda>(h', w'). call h')
     (run registry_double [Reset, Setup 0x1100 0x2000, Inject True]
        (fst (construct registry_double (With 0x1000 0x2000 0xDEADBEEF)
                (process_start \<lparr>initialised = 0, created = [0x1000], enabled = [0x1000]\<rparr>
                   Map.empty)))
        (snd (construct registry_double (With 0x1000 0x2000 0xDEADBEEF)
                (process_start \<lparr>initialised = 0, created = [0x1000], enabled = [0x1000]\<rparr>
                   Map.empty)))) = Some 0x3000 \<and>
   created_since_reset registry_double [Reset, Setup 0x1100 0x2000, Inject True]
     (creates_at_construction registry_double (With 0x1000 0x2000 0xDEADBEEF)
        (process_start \<lparr>initialised = 0, created = [0x1000], enabled = [0x1000]\<rparr> Map.empty))
     (fst (construct registry_double (With 0x1000 0x2000 0xDEADBEEF)
             (process_start \<lparr>initialised = 0, created = [0x1000], enabled = [0x1000]\<rparr>
                Map.empty)))
     (snd (construct registry_double (With 0x1000 0x2000 0xDEADBEEF)
             (process_start \<lparr>initialised = 0, created = [0x1000], enabled = [0x1000]\<rparr>
                Map.empty)))"
proof -
  let ?D = "registry_double"
  let ?ms = "[Reset, Setup 0x1100 0x2000, Inject True]"
  let ?c = "With 0x1000 0x2000 0xDEADBEEF"
  let ?w = "process_start \<lparr>initialised = 0, created = [0x1000], enabled = [0x1000]\<rparr>
              Map.empty"
  let ?r = "run ?D ?ms (fst (construct ?D ?c ?w)) (snd (construct ?D ?c ?w))"
  have "\<exists>h' w'. ?r = Some (h', w') \<and> call h' = 0x3000"
    by (simp add: HardHook_with_def Let_def EnsureMinHookInitialized_first process_start_def
        HardHook_setup_proj HardHook_inject_proj HardHook_reset_def
        registry_eval reported_def)
  then obtain h' w' where r: "?r = Some (h', w')" and c: "call h' = 0x3000"
    by (elim exE conjE)
  have d: "?c = Default \<or> creates_at_construction ?D ?c ?w \<or> Reset \<in> set ?ms"
    by simp
  from c have nonnull: "call h' \<noteq> 0"
    by simp
  note inst = trampoline_nonnull_iff_created_since_reset
                [OF registry_stores_trampoline_iff_ok r]
  have created: "created_since_reset ?D ?ms (creates_at_construction ?D ?c ?w)
          (fst (construct ?D ?c ?w)) (snd (construct ?D ?c ?w))"
    using nonnull
    by (rule iffD1 [OF inst [THEN conjunct2, THEN mp, OF d]])
  have "map_option (\<lambda>(h', w'). call h') ?r = Some 0x3000"
    unfolding r by (simp add: c)
  with created show ?thesis
    by (rule conjI [rotated])
qed

text \<open>
  Claim C3, as stated, fails. The two-argument constructor runs \<open>setup\<close> with a library
  whose create step succeeds and whose enable step returns \<open>MH_ERROR_MEMORY_PROTECT\<close>:
  the setup does not complete (its last event is the line ``setup failed''), no \<open>reset\<close>
  follows, and \<open>call\<close> is the non-null trampoline.
\<close>

theorem trampoline_nonnull_after_failed_setup:
  "call (fst (HardHook_with (double MH_OK (Some 0x3000) MH_ERROR_MEMORY_PROTECT MH_OK)
                0x1000 0x2000 0 (process_start 0 Map.empty))) = 0x3000 \<and>
   trace (snd (HardHook_with (double MH_OK (Some 0x3000) MH_ERROR_MEMORY_PROTECT MH_OK)
                0x1000 0x2000 0 (process_start 0 Map.empty))) =
     [Call_MH_Initialize, Call_MH_CreateHook 0x1000 0x2000, Call_MH_EnableHook 0x1000,
      Fods ''HardHook: setup failed, MH_EnableHook returned %s''
        [Arg_s ''MH_ERROR_MEMORY_PROTECT'']] \<and>
   \<not> completes (double MH_OK (Some 0x3000) MH_ERROR_MEMORY_PROTECT MH_OK)
       (Setup 0x1000 0x2000) \<lparr>m_func = 0x1000, m_replacement = 0x2000, call = 0\<rparr>
       (EnsureMinHookInitialized (double MH_OK (Some 0x3000) MH_ERROR_MEMORY_PROTECT MH_OK)
          (process_start 0 Map.empty))"
  by (simp add: HardHook_with_def Let_def EnsureMinHookInitialized_first process_start_def
      HardHook_setup_proj double_def reported_def completes_def)

end
